theory Spec2Isabelle
  imports Main "HOL-Library.Word"
begin

section \<open>The surface cache of the OpenGL rasterizer (gl\_rasterizer\_cache.h)\<close>

text \<open>
  A shallow embedding of \<^verbatim>\<open>src/video_core/renderer_opengl/gl_rasterizer_cache.h\<close>.
  Enumerations are datatypes whose constructors keep the enumerators' names (they are
  written with their type, as in \<^verbatim>\<open>PixelFormat::Invalid\<close>), the fixed-width integers
  \<^verbatim>\<open>u8\<close>, \<^verbatim>\<open>u32\<close>, \<^verbatim>\<open>u64\<close>/\<^verbatim>\<open>size_t\<close> are words, and a
  function that can end in \<^verbatim>\<open>ASSERT\<close> or \<^verbatim>\<open>UNREACHABLE\<close> returns a sum
  whose left side is the fault.
\<close>

type_synonym u8 = "8 word"
type_synonym u32 = "32 word"
type_synonym u64 = "64 word"

subsection \<open>Faults\<close>

text \<open>
  Modelled from the spec: the macros \<^verbatim>\<open>ASSERT\<close>, \<^verbatim>\<open>UNREACHABLE\<close> and
  \<^verbatim>\<open>NGLOG_CRITICAL\<close> come from headers that are not part of the sources. The
  specification calls a failed assertion and an unimplemented format fatal and
  unrecoverable, so each is a fault that ends the call: \<open>AssertionFailed\<close> for
  \<^verbatim>\<open>ASSERT(c)\<close> with \<open>c\<close> false, \<open>UnimplementedFormat v\<close> for the critical log
  line \<^verbatim>\<open>Unimplemented format=v\<close> followed by \<^verbatim>\<open>UNREACHABLE()\<close>,
  \<open>UnreachableCode\<close> for a bare \<^verbatim>\<open>UNREACHABLE()\<close>. \<open>DivisionByZero\<close> is the
  unsigned division or remainder by zero, which C++ leaves undefined.
\<close>

datatype fault = AssertionFailed | UnreachableCode | UnimplementedFormat u32 | DivisionByZero

text \<open>
  Modelled from the spec: \<^verbatim>\<open>ASSERT(condition)\<close> goes on when the condition holds
  and is the fatal fault when it does not; what the source writes behind it runs only
  in the first case.
\<close>

definition ASSERT :: "bool \<Rightarrow> fault + unit" where
  "ASSERT condition = (if condition then Inr () else Inl AssertionFailed)"

subsection \<open>Enumerations of \<^verbatim>\<open>SurfaceParams\<close>\<close>

datatype PixelFormat =
    ABGR8 | B5G6R5 | A2B10G10R10 | A1B5G5R5 | R8 | RGBA16F | R11FG11FB10F
  | DXT1 | DXT23 | DXT45 | DXN1 | ASTC_2D_4X4
  | Max | Invalid

text \<open>
  The enumerator's number, which is what \<^verbatim>\<open>static_cast<size_t>(format)\<close> reads.
  A format is one of the fourteen enumerators; a number cast to the enumeration that
  names none of them is not a value of the datatype.
\<close>

fun PixelFormat_value :: "PixelFormat \<Rightarrow> nat" where
  "PixelFormat_value PixelFormat.ABGR8 = 0"
| "PixelFormat_value PixelFormat.B5G6R5 = 1"
| "PixelFormat_value PixelFormat.A2B10G10R10 = 2"
| "PixelFormat_value PixelFormat.A1B5G5R5 = 3"
| "PixelFormat_value PixelFormat.R8 = 4"
| "PixelFormat_value PixelFormat.RGBA16F = 5"
| "PixelFormat_value PixelFormat.R11FG11FB10F = 6"
| "PixelFormat_value PixelFormat.DXT1 = 7"
| "PixelFormat_value PixelFormat.DXT23 = 8"
| "PixelFormat_value PixelFormat.DXT45 = 9"
| "PixelFormat_value PixelFormat.DXN1 = 10"
| "PixelFormat_value PixelFormat.ASTC_2D_4X4 = 11"
| "PixelFormat_value PixelFormat.Max = 12"
| "PixelFormat_value PixelFormat.Invalid = 255"

definition MaxPixelFormat :: nat where
  "MaxPixelFormat = PixelFormat_value PixelFormat.Max"

datatype ComponentType = Invalid | SNorm | UNorm | SInt | UInt | Float

datatype SurfaceType = ColorTexture | Depth | DepthStencil | Fill | Invalid

subsection \<open>Guest enumerations\<close>

text \<open>
  Modelled from the spec: \<^verbatim>\<open>Tegra::Texture::TextureFormat\<close> and
  \<^verbatim>\<open>Tegra::RenderTargetFormat\<close> are declared in headers that are not part of the
  sources. Each is a datatype with one constructor for every enumerator that a
  \<^verbatim>\<open>switch\<close> of this file names, and one more constructor standing for any
  other value of the enumeration, carrying the number that
  \<^verbatim>\<open>static_cast<u32>(format)\<close> would log.
\<close>

datatype TextureFormat =
    A8R8G8B8 | B5G6R5 | A2B10G10R10 | A1B5G5R5 | R8 | R16_G16_B16_A16 | BF10GF11RF11
  | DXT1 | DXT23 | DXT45 | DXN1 | ASTC_2D_4X4
  | OtherTextureFormat u32

datatype RenderTargetFormat =
    RGBA8_UNORM | RGBA8_SRGB | RGB10_A2_UNORM | RGBA16_FLOAT | R11G11B10_FLOAT
  | OtherRenderTargetFormat u32

subsection \<open>The format tables\<close>

definition compression_factor_table :: "u32 list" where
  "compression_factor_table = [1, 1, 1, 1, 1, 1, 1, 4, 4, 4, 4, 4]"

definition GetCompressionFactor :: "PixelFormat \<Rightarrow> fault + u32" where
  "GetCompressionFactor format =
     (if format = PixelFormat.Invalid then Inr 0
      else case ASSERT (PixelFormat_value format < length compression_factor_table) of
             Inl e \<Rightarrow> Inl e
           | Inr _ \<Rightarrow> Inr (compression_factor_table ! PixelFormat_value format))"

definition bpp_table :: "u32 list" where
  "bpp_table = [32, 16, 32, 16, 8, 64, 32, 64, 128, 128, 64, 32]"

definition GetFormatBpp :: "PixelFormat \<Rightarrow> fault + u32" where
  "GetFormatBpp format =
     (if format = PixelFormat.Invalid then Inr 0
      else case ASSERT (PixelFormat_value format < length bpp_table) of
             Inl e \<Rightarrow> Inl e
           | Inr _ \<Rightarrow> Inr (bpp_table ! PixelFormat_value format))"

text \<open>\<^verbatim>\<open>CHAR_BIT\<close> is 8 on every platform the emulator builds for.\<close>

definition CHAR_BIT :: u32 where
  "CHAR_BIT = 8"

text \<open>\<^verbatim>\<open>CachedSurface::GetGLBytesPerPixel\<close>.\<close>

definition GetGLBytesPerPixel :: "PixelFormat \<Rightarrow> fault + u32" where
  "GetGLBytesPerPixel format =
     (if format = PixelFormat.Invalid then Inr 0
      else case GetFormatBpp format of
             Inl e \<Rightarrow> Inl e
           | Inr bpp \<Rightarrow> Inr (bpp div CHAR_BIT))"

subsection \<open>Deriving the host format from a guest format\<close>

fun PixelFormatFromRenderTargetFormat :: "RenderTargetFormat \<Rightarrow> fault + PixelFormat" where
  "PixelFormatFromRenderTargetFormat RGBA8_UNORM = Inr PixelFormat.ABGR8"
| "PixelFormatFromRenderTargetFormat RGBA8_SRGB = Inr PixelFormat.ABGR8"
| "PixelFormatFromRenderTargetFormat RGB10_A2_UNORM = Inr PixelFormat.A2B10G10R10"
| "PixelFormatFromRenderTargetFormat RGBA16_FLOAT = Inr PixelFormat.RGBA16F"
| "PixelFormatFromRenderTargetFormat R11G11B10_FLOAT = Inr PixelFormat.R11FG11FB10F"
| "PixelFormatFromRenderTargetFormat (OtherRenderTargetFormat v) = Inl (UnimplementedFormat v)"

fun PixelFormatFromTextureFormat :: "TextureFormat \<Rightarrow> fault + PixelFormat" where
  "PixelFormatFromTextureFormat TextureFormat.A8R8G8B8 = Inr PixelFormat.ABGR8"
| "PixelFormatFromTextureFormat TextureFormat.B5G6R5 = Inr PixelFormat.B5G6R5"
| "PixelFormatFromTextureFormat TextureFormat.A2B10G10R10 = Inr PixelFormat.A2B10G10R10"
| "PixelFormatFromTextureFormat TextureFormat.A1B5G5R5 = Inr PixelFormat.A1B5G5R5"
| "PixelFormatFromTextureFormat TextureFormat.R8 = Inr PixelFormat.R8"
| "PixelFormatFromTextureFormat TextureFormat.R16_G16_B16_A16 = Inr PixelFormat.RGBA16F"
| "PixelFormatFromTextureFormat TextureFormat.BF10GF11RF11 = Inr PixelFormat.R11FG11FB10F"
| "PixelFormatFromTextureFormat TextureFormat.DXT1 = Inr PixelFormat.DXT1"
| "PixelFormatFromTextureFormat TextureFormat.DXT23 = Inr PixelFormat.DXT23"
| "PixelFormatFromTextureFormat TextureFormat.DXT45 = Inr PixelFormat.DXT45"
| "PixelFormatFromTextureFormat TextureFormat.DXN1 = Inr PixelFormat.DXN1"
| "PixelFormatFromTextureFormat TextureFormat.ASTC_2D_4X4 = Inr PixelFormat.ASTC_2D_4X4"
| "PixelFormatFromTextureFormat (OtherTextureFormat v) = Inl (UnimplementedFormat v)"

fun TextureFormatFromPixelFormat :: "PixelFormat \<Rightarrow> fault + TextureFormat" where
  "TextureFormatFromPixelFormat PixelFormat.ABGR8 = Inr TextureFormat.A8R8G8B8"
| "TextureFormatFromPixelFormat PixelFormat.B5G6R5 = Inr TextureFormat.B5G6R5"
| "TextureFormatFromPixelFormat PixelFormat.A2B10G10R10 = Inr TextureFormat.A2B10G10R10"
| "TextureFormatFromPixelFormat PixelFormat.A1B5G5R5 = Inr TextureFormat.A1B5G5R5"
| "TextureFormatFromPixelFormat PixelFormat.R8 = Inr TextureFormat.R8"
| "TextureFormatFromPixelFormat PixelFormat.RGBA16F = Inr TextureFormat.R16_G16_B16_A16"
| "TextureFormatFromPixelFormat PixelFormat.R11FG11FB10F = Inr TextureFormat.BF10GF11RF11"
| "TextureFormatFromPixelFormat PixelFormat.DXT1 = Inr TextureFormat.DXT1"
| "TextureFormatFromPixelFormat PixelFormat.DXT23 = Inr TextureFormat.DXT23"
| "TextureFormatFromPixelFormat PixelFormat.DXT45 = Inr TextureFormat.DXT45"
| "TextureFormatFromPixelFormat PixelFormat.DXN1 = Inr TextureFormat.DXN1"
| "TextureFormatFromPixelFormat PixelFormat.ASTC_2D_4X4 = Inr TextureFormat.ASTC_2D_4X4"
| "TextureFormatFromPixelFormat PixelFormat.Max = Inl UnreachableCode"
| "TextureFormatFromPixelFormat PixelFormat.Invalid = Inl UnreachableCode"

text \<open>
  The supported subsets: the enumerators that the \<^verbatim>\<open>case\<close> labels of the two
  \<^verbatim>\<open>switch\<close> statements name. Every other value takes the \<^verbatim>\<open>default\<close> branch.
\<close>

definition supported_render_target_formats :: "RenderTargetFormat list" where
  "supported_render_target_formats =
     [RGBA8_UNORM, RGBA8_SRGB, RGB10_A2_UNORM, RGBA16_FLOAT, R11G11B10_FLOAT]"

definition supported_texture_formats :: "TextureFormat list" where
  "supported_texture_formats =
     [TextureFormat.A8R8G8B8, TextureFormat.B5G6R5, TextureFormat.A2B10G10R10,
      TextureFormat.A1B5G5R5, TextureFormat.R8, TextureFormat.R16_G16_B16_A16,
      TextureFormat.BF10GF11RF11, TextureFormat.DXT1, TextureFormat.DXT23,
      TextureFormat.DXT45, TextureFormat.DXN1, TextureFormat.ASTC_2D_4X4]"

definition GetFormatType :: "PixelFormat \<Rightarrow> fault + SurfaceType" where
  "GetFormatType pixel_format =
     (if PixelFormat_value pixel_format < MaxPixelFormat then Inr SurfaceType.ColorTexture
      else case ASSERT False of
             Inl e \<Rightarrow> Inl e
           | Inr _ \<Rightarrow> Inr SurfaceType.Invalid)"

subsection \<open>The surface descriptor\<close>

text \<open>
  \<^verbatim>\<open>Tegra::GPUVAddr\<close> and \<^verbatim>\<open>VAddr\<close> are \<^verbatim>\<open>u64\<close>, \<^verbatim>\<open>size_t\<close> is 64 bits wide.
  The field \<^verbatim>\<open>type\<close> is called \<open>surface_type\<close> here.
\<close>

record SurfaceParams =
  addr :: u64
  is_tiled :: bool
  block_height :: u32
  pixel_format :: PixelFormat
  component_type :: ComponentType
  surface_type :: SurfaceType
  width :: u32
  height :: u32
  unaligned_height :: u32
  size_in_bytes :: u64

text \<open>
  \<^verbatim>\<open>SizeInBytes\<close>: the remainders, the quotients and the products are computed on
  \<^verbatim>\<open>u32\<close>, so they wrap around at \<open>2 ^ 32\<close>; the \<^verbatim>\<open>u32\<close> result is widened to
  \<^verbatim>\<open>size_t\<close> on return. A compression factor of zero (the format
  \<^verbatim>\<open>PixelFormat::Invalid\<close>) makes the first remainder a division by zero.
\<close>

definition SizeInBytes :: "SurfaceParams \<Rightarrow> fault + u64" where
  "SizeInBytes p =
     (case GetCompressionFactor (pixel_format p) of
        Inl e \<Rightarrow> Inl e
      | Inr compression_factor \<Rightarrow>
          if compression_factor = 0 then Inl DivisionByZero
          else
            (case ASSERT (width p mod compression_factor = 0) of
               Inl e \<Rightarrow> Inl e
             | Inr _ \<Rightarrow>
                 (case ASSERT (height p mod compression_factor = 0) of
                    Inl e \<Rightarrow> Inl e
                  | Inr _ \<Rightarrow>
                      (case GetFormatBpp (pixel_format p) of
                         Inl e \<Rightarrow> Inl e
                       | Inr bpp \<Rightarrow>
                           Inr (ucast ((width p div compression_factor) *
                                       (height p div compression_factor) * bpp
                                       div CHAR_BIT))))))"

text \<open>\<^verbatim>\<open>IsOverlappingRegion\<close>: both sums are \<^verbatim>\<open>u64\<close> sums and wrap around at \<open>2 ^ 64\<close>.\<close>

definition IsOverlappingRegion :: "SurfaceParams \<Rightarrow> u64 \<Rightarrow> u64 \<Rightarrow> bool" where
  "IsOverlappingRegion p region_addr region_size \<longleftrightarrow>
     addr p \<le> region_addr + region_size \<and> region_addr \<le> addr p + size_in_bytes p"

text \<open>
  \<^verbatim>\<open>SurfaceKey\<close> wraps a descriptor (\<^verbatim>\<open>res.state = params\<close>); two keys are equal
  when their descriptors are equal field by field.
\<close>

type_synonym SurfaceKey = SurfaceParams

definition Create :: "SurfaceParams \<Rightarrow> SurfaceKey" where
  "Create params = params"

section \<open>The operations that the header only declares\<close>

text \<open>
  The bodies of \<^verbatim>\<open>LoadGLBuffer\<close>, \<^verbatim>\<open>FlushGLBuffer\<close>, \<^verbatim>\<open>GetSurface\<close>,
  \<^verbatim>\<open>RegisterSurface\<close>, \<^verbatim>\<open>UnregisterSurface\<close> and \<^verbatim>\<open>UpdatePagesCachedCount\<close>
  are in a translation unit that is not part of the sources; the header gives their
  signatures and the members they work on. The definitions of this section follow the
  specification's description of them.
\<close>

subsection \<open>What the cache takes from its collaborators\<close>

text \<open>
  Modelled from the spec: the page size of the guest address space, the translation
  behind \<^verbatim>\<open>SurfaceParams::GetCpuAddr\<close> and the tiled layout are outside the sources.
  They are parameters: \<open>PAGE_BITS\<close> is the binary logarithm of the page size,
  \<open>GetCpuAddr\<close> resolves a descriptor to the CPU address of its first byte, and
  \<open>tiled_offset width height block_height bytes_per_pixel i\<close> is the place, counted
  from the first byte of a tiled surface, of the byte that is byte \<open>i\<close> of the linear
  staging buffer (the specification: a pure function of width, height, block height
  and bytes per pixel).
\<close>

record collaborators =
  PAGE_BITS :: nat
  GetCpuAddr :: "SurfaceParams \<Rightarrow> u64"
  tiled_offset :: "u32 \<Rightarrow> u32 \<Rightarrow> u32 \<Rightarrow> u32 \<Rightarrow> nat \<Rightarrow> nat"

subsection \<open>Cached surfaces and the state of the cache\<close>

text \<open>
  Modelled from the spec: a \<^verbatim>\<open>Surface\<close> is a shared pointer to a
  \<^verbatim>\<open>CachedSurface\<close>. The handle is the identity of the object it points to,
  together with the descriptor the object was built from, which no operation changes
  after construction. The staging buffer \<^verbatim>\<open>gl_buffer\<close> of each object is kept in
  the state, under the object's identity.
\<close>

record Surface =
  object_id :: nat
  params :: SurfaceParams

definition GetSurfaceParams :: "Surface \<Rightarrow> SurfaceParams" where
  "GetSurfaceParams surface = params surface"

text \<open>
  Modelled from the spec: \<^verbatim>\<open>PageMap\<close> is \<^verbatim>\<open>boost::icl::interval_map<u64, int>\<close>,
  the Page-Coherence Map "from guest address (page-granularity) to an integer reference
  count". It is a partial map from page numbers to counts; a page that is not in the
  map has count zero ("absent ... treated as not cached"). Page numbers are the natural
  numbers that the \<^verbatim>\<open>u64\<close> keys stand for, and counts are integers without a
  bound.
\<close>

type_synonym PageMap = "nat \<rightharpoonup> int"

definition page_count :: "PageMap \<Rightarrow> nat \<Rightarrow> int" where
  "page_count pages page = (case pages page of None \<Rightarrow> 0 | Some n \<Rightarrow> n)"

text \<open>
  The members \<^verbatim>\<open>surface_cache\<close> and \<^verbatim>\<open>cached_pages\<close> of the cache. The table
  \<^verbatim>\<open>std::unordered_map<SurfaceKey, Surface>\<close> is a list of entries, searched by key;
  a new cache has an empty table and an empty map, and the registered surfaces are the
  surfaces of the table's entries.
\<close>

record RasterizerCacheOpenGL =
  surface_cache :: "(SurfaceKey \<times> Surface) list"
  cached_pages :: PageMap

definition new_cache :: RasterizerCacheOpenGL where
  "new_cache = \<lparr>surface_cache = [], cached_pages = Map.empty\<rparr>"

definition registered_surfaces :: "RasterizerCacheOpenGL \<Rightarrow> Surface list" where
  "registered_surfaces cache = map snd (surface_cache cache)"

subsection \<open>The Page-Coherence Map\<close>

text \<open>
  Modelled from the spec: "every page-granularity interval in \<open>[addr, addr+size)\<close>",
  the pages that the bytes of the range touch, in ascending order: none when the range
  is empty, else those from the page of the first byte to the page of the last.
\<close>

definition pages_of_range :: "collaborators \<Rightarrow> u64 \<Rightarrow> u64 \<Rightarrow> nat list" where
  "pages_of_range env addr' size' =
     (if size' = 0 then []
      else [unat addr' div 2 ^ PAGE_BITS env ..<
            Suc ((unat addr' + unat size' - 1) div 2 ^ PAGE_BITS env)])"

text \<open>
  Modelled from the spec: one page's share of an update. The count changes by
  \<open>delta\<close>, and the page is removed from the map when its count reaches zero.
\<close>

definition add_to_page :: "int \<Rightarrow> nat \<Rightarrow> PageMap \<Rightarrow> PageMap" where
  "add_to_page delta page pages =
     (let n = page_count pages page + delta
      in if n = 0 then pages(page := None) else pages(page \<mapsto> n))"

text \<open>
  Modelled from the spec: \<^verbatim>\<open>UpdatePagesCachedCount(addr, size, delta)\<close> "applies
  delta to every page-granularity interval in \<open>[addr, addr+size)\<close> within the
  Page-Coherence Map; removes intervals whose count reaches zero".
\<close>

definition UpdatePagesCachedCount ::
    "collaborators \<Rightarrow> PageMap \<Rightarrow> u64 \<Rightarrow> u64 \<Rightarrow> int \<Rightarrow> PageMap" where
  "UpdatePagesCachedCount env pages addr' size' delta =
     fold (add_to_page delta) (pages_of_range env addr' size') pages"

text \<open>
  Modelled from the spec: \<^verbatim>\<open>RegisterSurface\<close> "insert[s] into the key table, add[s]
  its page range to the Page-Coherence Map" and \<^verbatim>\<open>UnregisterSurface\<close> "remove[s]
  from the key table, decrement[s] its page range". The two "must be called in matched
  pairs per surface" and a double unregister "is a programming error", which the
  specification treats as a fatal assertion: registering a key that is in the table and
  unregistering one that is not are faults.
\<close>

definition RegisterSurface ::
    "collaborators \<Rightarrow> RasterizerCacheOpenGL \<Rightarrow> Surface \<Rightarrow> fault + RasterizerCacheOpenGL" where
  "RegisterSurface env cache surface =
     (let surface_key = Create (GetSurfaceParams surface)
      in if map_of (surface_cache cache) surface_key \<noteq> None then Inl AssertionFailed
         else Inr (cache\<lparr>
           surface_cache := (surface_key, surface) # surface_cache cache,
           cached_pages := UpdatePagesCachedCount env (cached_pages cache)
             (addr (GetSurfaceParams surface)) (size_in_bytes (GetSurfaceParams surface)) 1\<rparr>))"

definition UnregisterSurface ::
    "collaborators \<Rightarrow> RasterizerCacheOpenGL \<Rightarrow> Surface \<Rightarrow> fault + RasterizerCacheOpenGL" where
  "UnregisterSurface env cache surface =
     (let surface_key = Create (GetSurfaceParams surface)
      in if map_of (surface_cache cache) surface_key = None then Inl AssertionFailed
         else Inr (cache\<lparr>
           surface_cache := filter (\<lambda>entry. fst entry \<noteq> surface_key) (surface_cache cache),
           cached_pages := UpdatePagesCachedCount env (cached_pages cache)
             (addr (GetSurfaceParams surface)) (size_in_bytes (GetSurfaceParams surface)) (- 1)\<rparr>))"

text \<open>A sequence of calls, from the first to the last; it stops at the first fault.\<close>

datatype cache_call = Register Surface | Unregister Surface

fun run_calls ::
    "collaborators \<Rightarrow> cache_call list \<Rightarrow> RasterizerCacheOpenGL \<Rightarrow> fault + RasterizerCacheOpenGL" where
  "run_calls env [] cache = Inr cache"
| "run_calls env (Register surface # calls) cache =
     (case RegisterSurface env cache surface of
        Inl e \<Rightarrow> Inl e
      | Inr cache' \<Rightarrow> run_calls env calls cache')"
| "run_calls env (Unregister surface # calls) cache =
     (case UnregisterSurface env cache surface of
        Inl e \<Rightarrow> Inl e
      | Inr cache' \<Rightarrow> run_calls env calls cache')"

text \<open>
  A surface's guest byte range \<open>[addr, addr + size_in_bytes)\<close> covers a page when it has
  a byte in the page \<open>[page * 2 ^ PAGE_BITS, (page + 1) * 2 ^ PAGE_BITS)\<close>: the range
  is not empty, it begins before the page ends and the page begins before it ends.
  \<open>surfaces_covering\<close> lists the registered surfaces that cover a page.
\<close>

definition covers_page :: "collaborators \<Rightarrow> Surface \<Rightarrow> nat \<Rightarrow> bool" where
  "covers_page env surface page \<longleftrightarrow>
     size_in_bytes (params surface) \<noteq> 0 \<and>
     page * 2 ^ PAGE_BITS env < unat (addr (params surface)) + unat (size_in_bytes (params surface)) \<and>
     unat (addr (params surface)) < (page + 1) * 2 ^ PAGE_BITS env"

definition surfaces_covering ::
    "collaborators \<Rightarrow> RasterizerCacheOpenGL \<Rightarrow> nat \<Rightarrow> Surface list" where
  "surfaces_covering env cache page =
     filter (\<lambda>surface. covers_page env surface page) (registered_surfaces cache)"

subsection \<open>Guest memory and the staging buffers\<close>

text \<open>
  Modelled from the spec: the state that \<^verbatim>\<open>GetSurface\<close>, \<^verbatim>\<open>LoadGLBuffer\<close> and
  \<^verbatim>\<open>FlushGLBuffer\<close> work on. \<open>guest_memory\<close> is the emulated memory, a byte for
  every CPU address; \<open>gl_buffer\<close> gives the staging buffer of the cached surface with
  a given identity; \<open>surfaces_constructed\<close> counts the \<^verbatim>\<open>CachedSurface\<close> objects
  built so far (the next object's identity) and \<open>loads_from_guest_memory\<close> the calls
  of \<^verbatim>\<open>LoadGLBuffer\<close>.
\<close>

record emulator =
  rasterizer_cache :: RasterizerCacheOpenGL
  guest_memory :: "u64 \<Rightarrow> u8"
  gl_buffer :: "nat \<Rightarrow> u8 list"
  surfaces_constructed :: nat
  loads_from_guest_memory :: nat

text \<open>
  Modelled from the spec: "honoring the tiling layout". The CPU address of byte \<open>i\<close>
  of the staging buffer is that of byte \<open>i\<close> of the surface when the layout is
  linear, and that of the byte at the tiled offset of \<open>i\<close> when it is tiled.
\<close>

definition guest_address :: "collaborators \<Rightarrow> SurfaceParams \<Rightarrow> u32 \<Rightarrow> nat \<Rightarrow> u64" where
  "guest_address env p bytes_per_pixel i =
     GetCpuAddr env p +
     of_nat (if is_tiled p
             then tiled_offset env (width p) (height p) (block_height p) bytes_per_pixel i
             else i)"

text \<open>
  Modelled from the spec: \<^verbatim>\<open>LoadGLBuffer\<close> and \<^verbatim>\<open>FlushGLBuffer\<close> are a
  "byte-for-byte copy between the guest memory range \<open>[CpuAddr, CpuAddr+SizeInBytes)\<close>
  and the staging buffer, honoring the tiling layout (if \<open>is_tiled\<close>, bytes are
  de-tiled/re-tiled according to \<open>block_height\<close> during the copy)". The load fills
  the staging buffer with \<^verbatim>\<open>SizeInBytes()\<close> bytes, byte \<open>i\<close> from the guest address
  of \<open>i\<close>; the flush writes the bytes of the staging buffer back, byte \<open>i\<close> to the
  guest address of \<open>i\<close>, in ascending order of \<open>i\<close>.
\<close>

definition LoadGLBuffer :: "collaborators \<Rightarrow> Surface \<Rightarrow> emulator \<Rightarrow> fault + emulator" where
  "LoadGLBuffer env surface st =
     (case SizeInBytes (params surface) of
        Inl e \<Rightarrow> Inl e
      | Inr n \<Rightarrow>
          (case GetGLBytesPerPixel (pixel_format (params surface)) of
             Inl e \<Rightarrow> Inl e
           | Inr bytes_per_pixel \<Rightarrow>
               Inr (st\<lparr>
                 gl_buffer := (gl_buffer st)(object_id surface :=
                   map (\<lambda>i. guest_memory st (guest_address env (params surface) bytes_per_pixel i))
                     [0..<unat n]),
                 loads_from_guest_memory := Suc (loads_from_guest_memory st)\<rparr>)))"

definition FlushGLBuffer :: "collaborators \<Rightarrow> Surface \<Rightarrow> emulator \<Rightarrow> fault + emulator" where
  "FlushGLBuffer env surface st =
     (case SizeInBytes (params surface) of
        Inl e \<Rightarrow> Inl e
      | Inr n \<Rightarrow>
          (case GetGLBytesPerPixel (pixel_format (params surface)) of
             Inl e \<Rightarrow> Inl e
           | Inr bytes_per_pixel \<Rightarrow>
               Inr (st\<lparr>
                 guest_memory :=
                   fold (\<lambda>(i, byte) memory.
                           memory(guest_address env (params surface) bytes_per_pixel i := byte))
                     (zip [0..<unat n] (gl_buffer st (object_id surface)))
                     (guest_memory st)\<rparr>)))"

text \<open>
  Modelled from the spec: \<^verbatim>\<open>GetSurface(descriptor)\<close>: "build a Surface Identity Key;
  on hit, return the existing surface unchanged (no re-load). On miss: construct a
  Cached Surface, call LoadFromGuestMemory, RegisterSurface (insert into the key table,
  add its page range to the Page-Coherence Map), return it."
\<close>

definition GetSurface ::
    "collaborators \<Rightarrow> emulator \<Rightarrow> SurfaceParams \<Rightarrow> fault + (Surface \<times> emulator)" where
  "GetSurface env st params' =
     (let surface_key = Create params'
      in case map_of (surface_cache (rasterizer_cache st)) surface_key of
           Some surface \<Rightarrow> Inr (surface, st)
         | None \<Rightarrow>
             (let surface = \<lparr>object_id = surfaces_constructed st, params = params'\<rparr>;
                  st1 = st\<lparr>surfaces_constructed := Suc (surfaces_constructed st)\<rparr>
              in case LoadGLBuffer env surface st1 of
                   Inl e \<Rightarrow> Inl e
                 | Inr st2 \<Rightarrow>
                     (case RegisterSurface env (rasterizer_cache st2) surface of
                        Inl e \<Rightarrow> Inl e
                      | Inr cache \<Rightarrow> Inr (surface, st2\<lparr>rasterizer_cache := cache\<rparr>))))"

subsection \<open>The invariant of the cache\<close>

text \<open>
  What every reachable cache satisfies: the keys of the table are distinct, every
  surface is stored under the key made from its own descriptor, no page is stored with
  count zero, and the count of every page is the number of registered surfaces that
  cover it.
\<close>

definition cache_invariant :: "collaborators \<Rightarrow> RasterizerCacheOpenGL \<Rightarrow> bool" where
  "cache_invariant env cache \<longleftrightarrow>
     distinct (map fst (surface_cache cache)) \<and>
     (\<forall>entry \<in> set (surface_cache cache). fst entry = params (snd entry)) \<and>
     (\<forall>page. cached_pages cache page \<noteq> Some 0) \<and>
     (\<forall>page. page_count (cached_pages cache) page =
              int (length (surfaces_covering env cache page)))"

subsection \<open>Concrete surfaces\<close>

text \<open>
  The surface of the specification's scenario: at guest address \<open>0x1000\<close>, \<open>0x2000\<close>
  bytes, ABGR8, 64 by 32, untiled.
\<close>

definition S1_params :: SurfaceParams where
  "S1_params =
     \<lparr>addr = 0x1000, is_tiled = False, block_height = 1,
      pixel_format = PixelFormat.ABGR8, component_type = ComponentType.UNorm,
      surface_type = SurfaceType.ColorTexture, width = 64, height = 32,
      unaligned_height = 32, size_in_bytes = 0x2000\<rparr>"

definition S1 :: Surface where
  "S1 = \<lparr>object_id = 0, params = S1_params\<rparr>"

text \<open>A tiled DXT1 surface of one 4 by 4 block, 8 bytes.\<close>

definition S2_params :: SurfaceParams where
  "S2_params =
     \<lparr>addr = 0x4000, is_tiled = True, block_height = 1,
      pixel_format = PixelFormat.DXT1, component_type = ComponentType.UNorm,
      surface_type = SurfaceType.ColorTexture, width = 4, height = 4,
      unaligned_height = 4, size_in_bytes = 8\<rparr>"

definition S2 :: Surface where
  "S2 = \<lparr>object_id = 0, params = S2_params\<rparr>"

text \<open>An ABGR8 surface of 16384 by 8192 pixels: \<open>2 ^ 32\<close> bits, 512 MiB.\<close>

definition large_params :: SurfaceParams where
  "large_params =
     \<lparr>addr = 0x1000, is_tiled = False, block_height = 1,
      pixel_format = PixelFormat.ABGR8, component_type = ComponentType.UNorm,
      surface_type = SurfaceType.ColorTexture, width = 16384, height = 8192,
      unaligned_height = 8192, size_in_bytes = 0x20000000\<rparr>"

text \<open>
  Collaborators with pages of 4096 bytes, the identity as address translation and a
  tiled layout that swaps each pair of neighbouring bytes; an emulator with an empty
  cache whose memory holds at every address the low byte of the address.
\<close>

definition example_collaborators :: collaborators where
  "example_collaborators =
     \<lparr>PAGE_BITS = 12, GetCpuAddr = addr,
      tiled_offset = (\<lambda>w h b bpp i. if even i then i + 1 else i - 1)\<rparr>"

definition example_emulator :: emulator where
  "example_emulator =
     \<lparr>rasterizer_cache = new_cache, guest_memory = ucast, gl_buffer = (\<lambda>i. []),
      surfaces_constructed = 0, loads_from_guest_memory = 0\<rparr>"

section \<open>Properties of the format tables and the format mappings\<close>

lemma PixelFormat_value_less_Max:
  "PixelFormat_value format < MaxPixelFormat \<longleftrightarrow>
     format \<noteq> PixelFormat.Max \<and> format \<noteq> PixelFormat.Invalid"
  by (cases format) (simp_all add: MaxPixelFormat_def)

lemma GetCompressionFactor_cases:
  "GetCompressionFactor format =
     (if format = PixelFormat.Invalid then Inr 0
      else if format = PixelFormat.Max then Inl AssertionFailed
      else if format \<in> {PixelFormat.DXT1, PixelFormat.DXT23, PixelFormat.DXT45,
                        PixelFormat.DXN1, PixelFormat.ASTC_2D_4X4} then Inr 4
      else Inr 1)"
  by (cases format)
    (simp_all add: ASSERT_def GetCompressionFactor_def compression_factor_table_def)

text \<open>
  C7. The bits-per-pixel table and the compression-factor table are total over the
  enumerated formats: every format whose number is below \<^verbatim>\<open>PixelFormat::Max\<close>
  indexes inside both tables and both queries return the table's entry. Each of the
  block-compressed formats DXT1, DXT23, DXT45, DXN1 and ASTC\_2D\_4X4 is such a format
  and has compression factor 4; every other format below \<^verbatim>\<open>Max\<close> has compression
  factor 1.
\<close>

theorem format_tables_total:
  "(PixelFormat_value format < MaxPixelFormat \<longrightarrow>
      PixelFormat_value format < length compression_factor_table \<and>
      PixelFormat_value format < length bpp_table \<and>
      GetCompressionFactor format = Inr (compression_factor_table ! PixelFormat_value format) \<and>
      GetFormatBpp format = Inr (bpp_table ! PixelFormat_value format)) \<and>
   (format \<in> {PixelFormat.DXT1, PixelFormat.DXT23, PixelFormat.DXT45, PixelFormat.DXN1,
               PixelFormat.ASTC_2D_4X4} \<longrightarrow>
      PixelFormat_value format < MaxPixelFormat \<and> GetCompressionFactor format = Inr 4) \<and>
   (PixelFormat_value format < MaxPixelFormat \<and>
    format \<notin> {PixelFormat.DXT1, PixelFormat.DXT23, PixelFormat.DXT45, PixelFormat.DXN1,
               PixelFormat.ASTC_2D_4X4} \<longrightarrow>
      GetCompressionFactor format = Inr 1)"
  by (cases format)
    (simp_all add: ASSERT_def MaxPixelFormat_def GetCompressionFactor_def GetFormatBpp_def
      compression_factor_table_def bpp_table_def)

theorem format_tables_total_witness:
  "PixelFormat_value PixelFormat.DXT1 < MaxPixelFormat \<and>
   GetCompressionFactor PixelFormat.DXT1 = Inr 4 \<and>
   GetFormatBpp PixelFormat.DXT1 = Inr 64 \<and>
   PixelFormat_value PixelFormat.R8 < MaxPixelFormat \<and>
   GetCompressionFactor PixelFormat.R8 = Inr 1 \<and>
   GetFormatBpp PixelFormat.R8 = Inr 8"
  using format_tables_total [of PixelFormat.DXT1] format_tables_total [of PixelFormat.R8]
  by (simp add: MaxPixelFormat_def compression_factor_table_def bpp_table_def)

text \<open>
  C10. Asked about \<^verbatim>\<open>PixelFormat::Invalid\<close>, the format queries do not fault: the
  compression factor, the bits per pixel and the GL bytes per pixel are all 0.
\<close>

theorem invalid_format_queries:
  "GetCompressionFactor PixelFormat.Invalid = Inr 0 \<and>
   GetFormatBpp PixelFormat.Invalid = Inr 0 \<and>
   GetGLBytesPerPixel PixelFormat.Invalid = Inr 0"
  by (simp add: ASSERT_def GetCompressionFactor_def GetFormatBpp_def GetGLBytesPerPixel_def)

text \<open>
  C9. \<^verbatim>\<open>GetFormatType\<close> returns \<^verbatim>\<open>SurfaceType::ColorTexture\<close> for every pixel
  format whose number is below \<^verbatim>\<open>PixelFormat::Max\<close>; it never returns Depth,
  DepthStencil or Fill; and for a format at or above \<^verbatim>\<open>Max\<close> it ends in the failed
  assertion, which stands before the \<^verbatim>\<open>return SurfaceType::Invalid\<close>.
\<close>

theorem GetFormatType_color:
  "(PixelFormat_value format < MaxPixelFormat \<longrightarrow>
      GetFormatType format = Inr SurfaceType.ColorTexture) \<and>
   (MaxPixelFormat \<le> PixelFormat_value format \<longrightarrow>
      GetFormatType format = Inl AssertionFailed) \<and>
   GetFormatType format \<noteq> Inr SurfaceType.Depth \<and>
   GetFormatType format \<noteq> Inr SurfaceType.DepthStencil \<and>
   GetFormatType format \<noteq> Inr SurfaceType.Fill"
  by (simp add: ASSERT_def GetFormatType_def)

theorem GetFormatType_color_witness:
  "PixelFormat_value PixelFormat.DXN1 < MaxPixelFormat \<and>
   GetFormatType PixelFormat.DXN1 = Inr SurfaceType.ColorTexture \<and>
   MaxPixelFormat \<le> PixelFormat_value PixelFormat.Invalid \<and>
   GetFormatType PixelFormat.Invalid = Inl AssertionFailed \<and>
   MaxPixelFormat \<le> PixelFormat_value PixelFormat.Max \<and>
   GetFormatType PixelFormat.Max = Inl AssertionFailed"
  using GetFormatType_color [of PixelFormat.DXN1] GetFormatType_color [of PixelFormat.Invalid]
    GetFormatType_color [of PixelFormat.Max]
  by (simp add: MaxPixelFormat_def)

lemma texture_to_pixel_to_texture:
  "PixelFormatFromTextureFormat tf = Inr pf \<Longrightarrow> TextureFormatFromPixelFormat pf = Inr tf"
  by (cases tf) auto

lemma pixel_to_texture_to_pixel:
  "TextureFormatFromPixelFormat pf = Inr tf \<Longrightarrow> PixelFormatFromTextureFormat tf = Inr pf"
  by (cases pf) auto

lemma supported_texture_format_mapped:
  "tf \<in> set supported_texture_formats \<Longrightarrow>
     \<exists>p. PixelFormatFromTextureFormat tf = Inr p \<and> PixelFormat_value p < MaxPixelFormat"
  by (cases tf) (simp_all add: supported_texture_formats_def MaxPixelFormat_def)

lemma enumerated_pixel_format_mapped:
  "PixelFormat_value pf < MaxPixelFormat \<Longrightarrow>
     \<exists>t. TextureFormatFromPixelFormat pf = Inr t \<and> t \<in> set supported_texture_formats"
  by (cases pf) (simp_all add: supported_texture_formats_def MaxPixelFormat_def)

text \<open>
  C8. The two tables between guest texture formats and host pixel formats are inverse
  to each other: \<^verbatim>\<open>PixelFormatFromTextureFormat\<close> maps \<open>tf\<close> to \<open>pf\<close> exactly when
  \<^verbatim>\<open>TextureFormatFromPixelFormat\<close> maps \<open>pf\<close> to \<open>tf\<close>; every supported texture
  format is mapped to an enumerated pixel format that is mapped back to it, and every
  pixel format below \<^verbatim>\<open>Max\<close> is mapped to a supported texture format that is mapped
  back to it.
\<close>

theorem texture_pixel_format_inverse:
  "(PixelFormatFromTextureFormat tf = Inr pf \<longleftrightarrow> TextureFormatFromPixelFormat pf = Inr tf) \<and>
   (tf \<in> set supported_texture_formats \<longrightarrow>
      (\<exists>p. PixelFormatFromTextureFormat tf = Inr p \<and> PixelFormat_value p < MaxPixelFormat \<and>
           TextureFormatFromPixelFormat p = Inr tf)) \<and>
   (PixelFormat_value pf < MaxPixelFormat \<longrightarrow>
      (\<exists>t. TextureFormatFromPixelFormat pf = Inr t \<and> t \<in> set supported_texture_formats \<and>
           PixelFormatFromTextureFormat t = Inr pf))"
proof (intro conjI impI)
  show "PixelFormatFromTextureFormat tf = Inr pf \<longleftrightarrow> TextureFormatFromPixelFormat pf = Inr tf"
    using texture_to_pixel_to_texture pixel_to_texture_to_pixel by blast
next
  assume "tf \<in> set supported_texture_formats"
  then obtain p where p: "PixelFormatFromTextureFormat tf = Inr p"
      "PixelFormat_value p < MaxPixelFormat"
    using supported_texture_format_mapped by blast
  with texture_to_pixel_to_texture show
    "\<exists>p. PixelFormatFromTextureFormat tf = Inr p \<and> PixelFormat_value p < MaxPixelFormat \<and>
         TextureFormatFromPixelFormat p = Inr tf"
    by blast
next
  assume "PixelFormat_value pf < MaxPixelFormat"
  then obtain t where t: "TextureFormatFromPixelFormat pf = Inr t"
      "t \<in> set supported_texture_formats"
    using enumerated_pixel_format_mapped by blast
  with pixel_to_texture_to_pixel show
    "\<exists>t. TextureFormatFromPixelFormat pf = Inr t \<and> t \<in> set supported_texture_formats \<and>
         PixelFormatFromTextureFormat t = Inr pf"
    by blast
qed

theorem texture_pixel_format_inverse_witness:
  "TextureFormat.R16_G16_B16_A16 \<in> set supported_texture_formats \<and>
   PixelFormatFromTextureFormat TextureFormat.R16_G16_B16_A16 = Inr PixelFormat.RGBA16F \<and>
   TextureFormatFromPixelFormat PixelFormat.RGBA16F = Inr TextureFormat.R16_G16_B16_A16 \<and>
   PixelFormat_value PixelFormat.R11FG11FB10F < MaxPixelFormat \<and>
   TextureFormatFromPixelFormat PixelFormat.R11FG11FB10F = Inr TextureFormat.BF10GF11RF11 \<and>
   PixelFormatFromTextureFormat TextureFormat.BF10GF11RF11 = Inr PixelFormat.R11FG11FB10F"
  using texture_pixel_format_inverse [of TextureFormat.R16_G16_B16_A16 PixelFormat.R11FG11FB10F]
  by (simp add: supported_texture_formats_def MaxPixelFormat_def)

text \<open>
  C6. \<^verbatim>\<open>PixelFormatFromTextureFormat\<close> and \<^verbatim>\<open>PixelFormatFromRenderTargetFormat\<close>
  return an enumerated host pixel format for every guest format of the supported
  subset; for every guest format outside it they end in the fatal "unimplemented
  format" condition, which carries the number of the offending format, and return no
  value.
\<close>

theorem unsupported_format_is_fatal:
  "(tf \<in> set supported_texture_formats \<longrightarrow>
      (\<exists>p. PixelFormatFromTextureFormat tf = Inr p \<and> PixelFormat_value p < MaxPixelFormat)) \<and>
   (tf \<notin> set supported_texture_formats \<longrightarrow>
      (\<exists>v. tf = OtherTextureFormat v \<and>
           PixelFormatFromTextureFormat tf = Inl (UnimplementedFormat v))) \<and>
   (rt \<in> set supported_render_target_formats \<longrightarrow>
      (\<exists>p. PixelFormatFromRenderTargetFormat rt = Inr p \<and> PixelFormat_value p < MaxPixelFormat)) \<and>
   (rt \<notin> set supported_render_target_formats \<longrightarrow>
      (\<exists>v. rt = OtherRenderTargetFormat v \<and>
           PixelFormatFromRenderTargetFormat rt = Inl (UnimplementedFormat v)))"
proof -
  have tex: "(tf \<in> set supported_texture_formats \<longrightarrow>
      (\<exists>p. PixelFormatFromTextureFormat tf = Inr p \<and> PixelFormat_value p < MaxPixelFormat)) \<and>
   (tf \<notin> set supported_texture_formats \<longrightarrow>
      (\<exists>v. tf = OtherTextureFormat v \<and>
           PixelFormatFromTextureFormat tf = Inl (UnimplementedFormat v)))"
    by (cases tf) (simp_all add: supported_texture_formats_def MaxPixelFormat_def)
  have rtf: "(rt \<in> set supported_render_target_formats \<longrightarrow>
      (\<exists>p. PixelFormatFromRenderTargetFormat rt = Inr p \<and> PixelFormat_value p < MaxPixelFormat)) \<and>
   (rt \<notin> set supported_render_target_formats \<longrightarrow>
      (\<exists>v. rt = OtherRenderTargetFormat v \<and>
           PixelFormatFromRenderTargetFormat rt = Inl (UnimplementedFormat v)))"
    by (cases rt) (simp_all add: supported_render_target_formats_def MaxPixelFormat_def)
  from tex rtf show ?thesis by blast
qed

theorem unsupported_format_is_fatal_witness:
  "TextureFormat.DXT45 \<in> set supported_texture_formats \<and>
   PixelFormatFromTextureFormat TextureFormat.DXT45 = Inr PixelFormat.DXT45 \<and>
   OtherTextureFormat 1 \<notin> set supported_texture_formats \<and>
   PixelFormatFromTextureFormat (OtherTextureFormat 1) = Inl (UnimplementedFormat 1) \<and>
   RGBA8_SRGB \<in> set supported_render_target_formats \<and>
   PixelFormatFromRenderTargetFormat RGBA8_SRGB = Inr PixelFormat.ABGR8 \<and>
   OtherRenderTargetFormat 0 \<notin> set supported_render_target_formats \<and>
   PixelFormatFromRenderTargetFormat (OtherRenderTargetFormat 0) = Inl (UnimplementedFormat 0)"
  using unsupported_format_is_fatal [of TextureFormat.DXT45 RGBA8_SRGB]
    unsupported_format_is_fatal [of "OtherTextureFormat 1" "OtherRenderTargetFormat 0"]
  by (simp add: supported_texture_formats_def supported_render_target_formats_def)

section \<open>The size of a surface\<close>

lemma enumerated_compression_factor:
  assumes "PixelFormat_value format < MaxPixelFormat"
    and "GetCompressionFactor format = Inr factor"
  shows "factor = 1 \<or> factor = 4"
  using assms by (auto simp: GetCompressionFactor_cases PixelFormat_value_less_Max split: if_splits)

lemma enumerated_bpp:
  assumes "PixelFormat_value format < MaxPixelFormat"
  shows "\<exists>bpp. GetFormatBpp format = Inr bpp \<and> 8 \<le> unat bpp"
  using assms
  by (cases format) (simp_all add: ASSERT_def GetFormatBpp_def bpp_table_def MaxPixelFormat_def)

lemma word_mod_eq_0_iff_dvd:
  fixes a b :: "'a::len word"
  shows "a mod b = 0 \<longleftrightarrow> unat b dvd unat a"
proof -
  have "a mod b = 0 \<longleftrightarrow> unat (a mod b) = 0" by (simp add: unat_eq_0)
  also have "\<dots> \<longleftrightarrow> unat a mod unat b = 0" by (simp add: unat_mod)
  also have "\<dots> \<longleftrightarrow> unat b dvd unat a" by (simp add: dvd_eq_mod_eq_0)
  finally show ?thesis .
qed

lemma unat_ucast_u32_u64: "unat (ucast (x :: u32) :: u64) = unat x"
proof -
  have "unat x < 2 ^ 32" using unsigned_less [of x] by simp
  then have "unat x < 2 ^ 64" by simp
  then show ?thesis by (simp add: unsigned_ucast_eq take_bit_nat_eq_self)
qed

text \<open>
  A descriptor with an enumerated format whose width or height is not a multiple of the
  compression factor ends in the failed assertion.
\<close>

lemma SizeInBytes_not_divisible:
  assumes fmt: "PixelFormat_value (pixel_format p) < MaxPixelFormat"
    and cf: "GetCompressionFactor (pixel_format p) = Inr factor"
    and nd: "\<not> (unat factor dvd unat (width p) \<and> unat factor dvd unat (height p))"
  shows "SizeInBytes p = Inl AssertionFailed"
proof -
  from enumerated_compression_factor [OF fmt cf] have nz: "factor \<noteq> 0" by auto
  from nd have "width p mod factor \<noteq> 0 \<or> height p mod factor \<noteq> 0"
    by (simp add: word_mod_eq_0_iff_dvd)
  with nz cf show ?thesis by (auto simp: ASSERT_def SizeInBytes_def)
qed

text \<open>
  A descriptor with an enumerated format whose width and height are multiples of the
  compression factor, and whose number of bits is below \<open>2 ^ 32\<close>, has the size that
  the formula gives on the natural numbers.
\<close>

lemma SizeInBytes_exact:
  assumes fmt: "PixelFormat_value (pixel_format p) < MaxPixelFormat"
    and cf: "GetCompressionFactor (pixel_format p) = Inr factor"
    and bpp: "GetFormatBpp (pixel_format p) = Inr bpp"
    and dw: "unat factor dvd unat (width p)"
    and dh: "unat factor dvd unat (height p)"
    and fits: "(unat (width p) div unat factor) * (unat (height p) div unat factor) * unat bpp < 2 ^ 32"
  shows "\<exists>n. SizeInBytes p = Inr n \<and>
           unat n = (unat (width p) div unat factor) * (unat (height p) div unat factor) * unat bpp div 8"
proof -
  let ?w = "width p div factor" and ?h = "height p div factor"
  from enumerated_compression_factor [OF fmt cf] have nz: "factor \<noteq> 0" by auto
  from enumerated_bpp [OF fmt] bpp have b8: "8 \<le> unat bpp" by auto
  have uw: "unat ?w = unat (width p) div unat factor" by (simp add: unat_div)
  have uh: "unat ?h = unat (height p) div unat factor" by (simp add: unat_div)
  have "1 \<le> unat bpp" using b8 by simp
  then have "unat ?w * unat ?h * 1 \<le> unat ?w * unat ?h * unat bpp"
    by (rule mult_le_mono2)
  then have "unat ?w * unat ?h \<le>
      (unat (width p) div unat factor) * (unat (height p) div unat factor) * unat bpp"
    by (simp only: uw uh mult_1_right)
  with fits have wh: "unat ?w * unat ?h < 2 ^ 32" by linarith
  then have uwh: "unat (?w * ?h) = unat ?w * unat ?h"
    by (simp add: unat_mult_lem [THEN iffD1])
  from fits have "unat (?w * ?h) * unat bpp < 2 ^ 32" by (simp add: uwh uw uh)
  then have uwhb: "unat (?w * ?h * bpp) = unat (?w * ?h) * unat bpp"
    by (simp add: unat_mult_lem [THEN iffD1])
  have "unat (ucast (?w * ?h * bpp div CHAR_BIT) :: u64) = unat (?w * ?h * bpp div CHAR_BIT)"
    by (rule unat_ucast_u32_u64)
  also have "\<dots> = unat (?w * ?h * bpp) div 8" by (simp add: unat_div CHAR_BIT_def)
  finally have "unat (ucast (?w * ?h * bpp div CHAR_BIT) :: u64) =
      (unat (width p) div unat factor) * (unat (height p) div unat factor) * unat bpp div 8"
    by (simp add: uwhb uwh uw uh)
  moreover have "SizeInBytes p = Inr (ucast (?w * ?h * bpp div CHAR_BIT))"
    using nz cf bpp dw dh by (simp add: ASSERT_def SizeInBytes_def word_mod_eq_0_iff_dvd)
  ultimately show ?thesis by blast
qed

text \<open>
  C1. \<^verbatim>\<open>SizeInBytes\<close> is to return
  \<open>(width / factor) * (height / factor) * bpp / 8\<close> for every descriptor whose width
  and height are divisible by the compression factor. The ABGR8 descriptor of 16384 by
  8192 pixels satisfies the precondition (factor 1, 32 bits per pixel) and the formula
  gives 536870912 bytes; the code multiplies on \<^verbatim>\<open>u32\<close>, the product of bits
  \<open>2 ^ 32\<close> wraps around to 0, and it returns 0.
\<close>

theorem SizeInBytes_wraps_around:
  "PixelFormat_value (pixel_format large_params) < MaxPixelFormat \<and>
   GetCompressionFactor (pixel_format large_params) = Inr 1 \<and>
   GetFormatBpp (pixel_format large_params) = Inr 32 \<and>
   unat (width large_params) mod 1 = 0 \<and>
   unat (height large_params) mod 1 = 0 \<and>
   unat (width large_params) div 1 * (unat (height large_params) div 1) * 32 div 8 = 536870912 \<and>
   SizeInBytes large_params = Inr 0"
  by (simp add: ASSERT_def large_params_def SizeInBytes_def GetCompressionFactor_def GetFormatBpp_def
      compression_factor_table_def bpp_table_def CHAR_BIT_def MaxPixelFormat_def)

section \<open>Overlap of a region with a surface\<close>

lemma closed_intervals_meet:
  fixes a b c d :: nat
  assumes "a \<le> b" "c \<le> d"
  shows "{a..b} \<inter> {c..d} \<noteq> {} \<longleftrightarrow> c \<le> b \<and> a \<le> d"
proof
  assume "{a..b} \<inter> {c..d} \<noteq> {}"
  then obtain x where "x \<in> {a..b} \<inter> {c..d}" by blast
  then have "a \<le> x \<and> x \<le> b \<and> c \<le> x \<and> x \<le> d" by simp
  then show "c \<le> b \<and> a \<le> d" by linarith
next
  assume h: "c \<le> b \<and> a \<le> d"
  with assms have "max a c \<in> {a..b} \<inter> {c..d}" by auto
  then show "{a..b} \<inter> {c..d} \<noteq> {}" by blast
qed

text \<open>
  Where no sum wraps around the test is the closed-interval test: when neither
  \<open>region_addr + region_size\<close> nor the surface's \<open>addr + size_in_bytes\<close> exceeds
  \<open>2 ^ 64 - 1\<close>, \<^verbatim>\<open>IsOverlappingRegion\<close> is true exactly when the closed intervals
  \<open>[region_addr, region_addr + region_size]\<close> and \<open>[addr, addr + size_in_bytes]\<close>
  have a point in common; intervals that only touch at an end point do.
\<close>

lemma IsOverlappingRegion_closed_intervals:
  assumes "unat region_addr + unat region_size < 2 ^ 64"
    and "unat (addr p) + unat (size_in_bytes p) < 2 ^ 64"
  shows "IsOverlappingRegion p region_addr region_size \<longleftrightarrow>
           {unat region_addr .. unat region_addr + unat region_size} \<inter>
           {unat (addr p) .. unat (addr p) + unat (size_in_bytes p)} \<noteq> {}"
proof -
  have r: "unat (region_addr + region_size) = unat region_addr + unat region_size"
    using assms(1) by (simp add: unat_add_lem [THEN iffD1])
  have s: "unat (addr p + size_in_bytes p) = unat (addr p) + unat (size_in_bytes p)"
    using assms(2) by (simp add: unat_add_lem [THEN iffD1])
  have "IsOverlappingRegion p region_addr region_size \<longleftrightarrow>
          unat (addr p) \<le> unat region_addr + unat region_size \<and>
          unat region_addr \<le> unat (addr p) + unat (size_in_bytes p)"
    by (simp add: IsOverlappingRegion_def word_le_nat_alt r s)
  also have "\<dots> \<longleftrightarrow> {unat region_addr .. unat region_addr + unat region_size} \<inter>
           {unat (addr p) .. unat (addr p) + unat (size_in_bytes p)} \<noteq> {}"
    by (rule closed_intervals_meet [symmetric]) simp_all
  finally show ?thesis .
qed

text \<open>The region \<open>[0x3000, 0x3010]\<close> touches the surface \<open>[0x1000, 0x3000]\<close> at \<open>0x3000\<close>.\<close>

lemma IsOverlappingRegion_boundary_touch:
  "unat (0x3000 :: u64) + unat (0x10 :: u64) < 2 ^ 64 \<and>
   unat (addr S1_params) + unat (size_in_bytes S1_params) < 2 ^ 64 \<and>
   IsOverlappingRegion S1_params 0x3000 0x10 \<and>
   {unat (0x3000 :: u64) .. unat (0x3000 :: u64) + unat (0x10 :: u64)} \<inter>
   {unat (addr S1_params) .. unat (addr S1_params) + unat (size_in_bytes S1_params)} \<noteq> {}"
  using IsOverlappingRegion_closed_intervals [of "0x3000" "0x10" S1_params]
  by (simp add: S1_params_def IsOverlappingRegion_def)

text \<open>
  C2. \<^verbatim>\<open>IsOverlappingRegion\<close> is to return true exactly when the closed
  intervals \<open>[region_addr, region_addr + region_size]\<close> and
  \<open>[addr, addr + size_in_bytes]\<close> intersect. The region of \<open>2 ^ 64 - 0x2000\<close> bytes
  at \<open>0x2000\<close> contains the bytes \<open>0x2000\<close> to \<open>0x2FFF\<close> of the surface
  \<open>[0x1000, 0x3000]\<close>, so the intervals intersect; the code adds on \<^verbatim>\<open>u64\<close>,
  \<open>region_addr + region_size\<close> wraps around to 0, and it returns false.
\<close>

theorem IsOverlappingRegion_wraps_around:
  "\<not> IsOverlappingRegion S1_params 0x2000 0xFFFFFFFFFFFFE000 \<and>
   {unat (0x2000 :: u64) .. unat (0x2000 :: u64) + unat (0xFFFFFFFFFFFFE000 :: u64)} \<inter>
   {unat (addr S1_params) .. unat (addr S1_params) + unat (size_in_bytes S1_params)} \<noteq> {}"
proof -
  have "(0x2000 :: nat) \<in>
      {unat (0x2000 :: u64) .. unat (0x2000 :: u64) + unat (0xFFFFFFFFFFFFE000 :: u64)} \<inter>
      {unat (addr S1_params) .. unat (addr S1_params) + unat (size_in_bytes S1_params)}"
    by (simp add: S1_params_def)
  then have "{unat (0x2000 :: u64) .. unat (0x2000 :: u64) + unat (0xFFFFFFFFFFFFE000 :: u64)} \<inter>
      {unat (addr S1_params) .. unat (addr S1_params) + unat (size_in_bytes S1_params)} \<noteq> {}"
    by blast
  moreover have "\<not> IsOverlappingRegion S1_params 0x2000 0xFFFFFFFFFFFFE000"
    by (simp add: S1_params_def IsOverlappingRegion_def)
  ultimately show ?thesis by blast
qed

section \<open>The Page-Coherence Map\<close>

lemma page_count_add_to_page:
  "page_count (add_to_page delta q pages) page =
     (if page = q then page_count pages page + delta else page_count pages page)"
  by (simp add: add_to_page_def page_count_def Let_def)

lemma add_to_page_no_zero:
  assumes "\<And>page. pages page \<noteq> Some 0"
  shows "add_to_page delta q pages page \<noteq> Some 0"
  using assms by (simp add: add_to_page_def Let_def)

lemma fold_add_to_page_no_zero:
  assumes "\<And>page. pages page \<noteq> Some 0"
  shows "fold (add_to_page delta) qs pages page \<noteq> Some 0"
  using assms
proof (induction qs arbitrary: pages page)
  case Nil
  then show ?case by simp
next
  case (Cons q qs)
  have "\<And>page. add_to_page delta q pages page \<noteq> Some 0"
    using Cons.prems by (rule add_to_page_no_zero)
  then show ?case using Cons.IH by simp
qed

lemma page_count_fold_add_to_page:
  assumes "distinct qs"
  shows "page_count (fold (add_to_page delta) qs pages) page =
           page_count pages page + (if page \<in> set qs then delta else 0)"
  using assms
proof (induction qs arbitrary: pages)
  case Nil
  then show ?case by simp
next
  case (Cons q qs)
  then show ?case by (auto simp: page_count_add_to_page)
qed

lemma distinct_pages_of_range: "distinct (pages_of_range env a n)"
  by (simp add: pages_of_range_def)

text \<open>A surface covers a page exactly when one of its bytes lies in the page.\<close>

lemma covers_page_iff_byte:
  "covers_page env surface page \<longleftrightarrow>
     (\<exists>a. unat (addr (params surface)) \<le> a \<and>
          a < unat (addr (params surface)) + unat (size_in_bytes (params surface)) \<and>
          a div 2 ^ PAGE_BITS env = page)"
proof
  let ?a = "unat (addr (params surface))" and ?n = "unat (size_in_bytes (params surface))"
  let ?P = "(2::nat) ^ PAGE_BITS env"
  assume c: "covers_page env surface page"
  then have n: "0 < ?n" by (simp add: covers_page_def unat_gt_0)
  from c have lo: "page * ?P < ?a + ?n" and hi: "?a < (page + 1) * ?P"
    by (simp_all add: covers_page_def)
  let ?b = "max ?a (page * ?P)"
  have "?P * page \<le> ?b" and "?b < ?P * Suc page" using hi by (simp_all add: mult.commute)
  then have "?b div ?P = page" by (rule div_nat_eqI)
  moreover have "?a \<le> ?b" by simp
  moreover have "?b < ?a + ?n" using n lo by simp
  ultimately show "\<exists>a. ?a \<le> a \<and> a < ?a + ?n \<and> a div ?P = page" by blast
next
  let ?a = "unat (addr (params surface))" and ?n = "unat (size_in_bytes (params surface))"
  let ?P = "(2::nat) ^ PAGE_BITS env"
  assume "\<exists>a. ?a \<le> a \<and> a < ?a + ?n \<and> a div ?P = page"
  then obtain a where a: "?a \<le> a" "a < ?a + ?n" "a div ?P = page" by blast
  then have "0 < ?n" by linarith
  then have nz: "size_in_bytes (params surface) \<noteq> 0" by (simp add: unat_gt_0)
  have P: "0 < ?P" by simp
  have "page * ?P \<le> a" using a(3) div_times_less_eq_dividend [of a ?P] by simp
  then have lo: "page * ?P < ?a + ?n" using a(2) by linarith
  have "a < (page + 1) * ?P"
    using a(3) div_less_iff_less_mult [OF P, of a "page + 1"] by simp
  then have hi: "?a < (page + 1) * ?P" using a(1) by linarith
  from nz lo hi show "covers_page env surface page" by (simp add: covers_page_def)
qed

text \<open>The pages that an update visits are the pages that the surface's bytes cover.\<close>

lemma page_in_range_iff:
  "page \<in> set (pages_of_range env (addr (params surface)) (size_in_bytes (params surface))) \<longleftrightarrow>
     covers_page env surface page"
proof (cases "size_in_bytes (params surface) = 0")
  case True
  then show ?thesis by (simp add: pages_of_range_def covers_page_def)
next
  case False
  let ?a = "unat (addr (params surface))" and ?n = "unat (size_in_bytes (params surface))"
  let ?P = "(2::nat) ^ PAGE_BITS env"
  have P: "0 < ?P" by simp
  from False have n: "0 < ?n" by (simp add: unat_gt_0)
  have lo: "?a div ?P \<le> page \<longleftrightarrow> ?a < (page + 1) * ?P"
  proof -
    have "?a div ?P \<le> page \<longleftrightarrow> ?a div ?P < page + 1" by linarith
    also have "\<dots> \<longleftrightarrow> ?a < (page + 1) * ?P" by (rule div_less_iff_less_mult [OF P])
    finally show ?thesis .
  qed
  have hi: "page \<le> (?a + ?n - 1) div ?P \<longleftrightarrow> page * ?P < ?a + ?n"
  proof -
    have "page \<le> (?a + ?n - 1) div ?P \<longleftrightarrow> \<not> (?a + ?n - 1) div ?P < page" by linarith
    also have "\<dots> \<longleftrightarrow> \<not> ?a + ?n - 1 < page * ?P"
      by (simp only: div_less_iff_less_mult [OF P])
    also have "\<dots> \<longleftrightarrow> page * ?P < ?a + ?n" using n by linarith
    finally show ?thesis .
  qed
  have "page \<in> set (pages_of_range env (addr (params surface)) (size_in_bytes (params surface))) \<longleftrightarrow>
          ?a div ?P \<le> page \<and> page \<le> (?a + ?n - 1) div ?P"
    using False by (auto simp: pages_of_range_def)
  also have "\<dots> \<longleftrightarrow> covers_page env surface page"
    unfolding covers_page_def lo hi using False by blast
  finally show ?thesis .
qed

lemma page_count_UpdatePagesCachedCount:
  "page_count (UpdatePagesCachedCount env pages (addr (params surface))
       (size_in_bytes (params surface)) delta) page =
     page_count pages page + (if covers_page env surface page then delta else 0)"
  by (simp add: UpdatePagesCachedCount_def page_count_fold_add_to_page
      distinct_pages_of_range page_in_range_iff)

lemma UpdatePagesCachedCount_no_zero:
  assumes "\<And>page. pages page \<noteq> Some 0"
  shows "UpdatePagesCachedCount env pages a n delta page \<noteq> Some 0"
  unfolding UpdatePagesCachedCount_def using assms by (rule fold_add_to_page_no_zero)

lemma cache_invariant_new: "cache_invariant env new_cache"
  by (simp add: cache_invariant_def new_cache_def page_count_def surfaces_covering_def
      registered_surfaces_def)

lemma cache_invariant_RegisterSurface:
  assumes inv: "cache_invariant env cache"
    and reg: "RegisterSurface env cache surface = Inr cache'"
  shows "cache_invariant env cache'"
proof -
  let ?k = "params surface"
  from reg have fresh: "map_of (surface_cache cache) ?k = None"
    by (auto simp: RegisterSurface_def Create_def GetSurfaceParams_def Let_def split: if_splits)
  from reg fresh have cache':
    "cache' = cache\<lparr>surface_cache := (?k, surface) # surface_cache cache,
        cached_pages := UpdatePagesCachedCount env (cached_pages cache)
          (addr (params surface)) (size_in_bytes (params surface)) 1\<rparr>"
    by (simp add: RegisterSurface_def Create_def GetSurfaceParams_def Let_def)
  from fresh have notin: "?k \<notin> fst ` set (surface_cache cache)"
    by (simp add: map_of_eq_None_iff)
  have d: "distinct (map fst (surface_cache cache'))"
    using inv notin by (simp add: cache' cache_invariant_def)
  have k: "\<forall>entry \<in> set (surface_cache cache'). fst entry = params (snd entry)"
    using inv by (simp add: cache' cache_invariant_def)
  have z: "\<forall>page. cached_pages cache' page \<noteq> Some 0"
    using inv by (simp add: cache' cache_invariant_def UpdatePagesCachedCount_no_zero)
  have c: "\<forall>page. page_count (cached_pages cache') page =
      int (length (surfaces_covering env cache' page))"
  proof
    fix page
    have "page_count (cached_pages cache') page =
        page_count (cached_pages cache) page + (if covers_page env surface page then 1 else 0)"
      by (simp add: cache' page_count_UpdatePagesCachedCount)
    also have "page_count (cached_pages cache) page =
        int (length (surfaces_covering env cache page))"
      using inv by (simp add: cache_invariant_def)
    finally show "page_count (cached_pages cache') page =
        int (length (surfaces_covering env cache' page))"
      by (simp add: cache' surfaces_covering_def registered_surfaces_def)
  qed
  from d k z c show ?thesis by (simp add: cache_invariant_def)
qed

lemma length_filter_remove_key:
  assumes "distinct (map fst xs)" and "map_of xs k = Some v"
  shows "length (filter P (map snd xs)) =
           length (filter P (map snd (filter (\<lambda>entry. fst entry \<noteq> k) xs))) +
           (if P v then 1 else 0)"
  using assms
proof (induction xs)
  case Nil
  then show ?case by simp
next
  case (Cons x xs)
  show ?case
  proof (cases "fst x = k")
    case True
    with Cons.prems have v: "snd x = v" by (cases x) simp
    from True Cons.prems have "k \<notin> fst ` set xs" by auto
    then have "filter (\<lambda>entry. fst entry \<noteq> k) xs = xs"
      by (auto simp: filter_id_conv)
    with True v show ?thesis by simp
  next
    case False
    with Cons.prems have "map_of xs k = Some v" by (cases x) (auto split: if_splits)
    with Cons.IH Cons.prems have "length (filter P (map snd xs)) =
           length (filter P (map snd (filter (\<lambda>entry. fst entry \<noteq> k) xs))) +
           (if P v then 1 else 0)" by simp
    with False show ?thesis by simp
  qed
qed

lemma cache_invariant_UnregisterSurface:
  assumes inv: "cache_invariant env cache"
    and unreg: "UnregisterSurface env cache surface = Inr cache'"
  shows "cache_invariant env cache'"
proof -
  let ?k = "params surface"
  from unreg obtain s where found: "map_of (surface_cache cache) ?k = Some s"
    by (auto simp: UnregisterSurface_def Create_def GetSurfaceParams_def Let_def split: if_splits)
  from unreg found have cache':
    "cache' = cache\<lparr>surface_cache := filter (\<lambda>entry. fst entry \<noteq> ?k) (surface_cache cache),
        cached_pages := UpdatePagesCachedCount env (cached_pages cache)
          (addr (params surface)) (size_in_bytes (params surface)) (- 1)\<rparr>"
    by (simp add: UnregisterSurface_def Create_def GetSurfaceParams_def Let_def)
  from found have "(?k, s) \<in> set (surface_cache cache)" by (rule map_of_SomeD)
  with inv have ps: "params s = ?k" by (auto simp: cache_invariant_def)
  then have cov: "\<And>page. covers_page env s page = covers_page env surface page"
    by (simp add: covers_page_def)
  have d: "distinct (map fst (surface_cache cache'))"
    using inv by (simp add: cache' cache_invariant_def distinct_map_filter)
  have k: "\<forall>entry \<in> set (surface_cache cache'). fst entry = params (snd entry)"
    using inv by (simp add: cache' cache_invariant_def)
  have z: "\<forall>page. cached_pages cache' page \<noteq> Some 0"
    using inv by (simp add: cache' cache_invariant_def UpdatePagesCachedCount_no_zero)
  have c: "\<forall>page. page_count (cached_pages cache') page =
      int (length (surfaces_covering env cache' page))"
  proof
    fix page
    have dist: "distinct (map fst (surface_cache cache))"
      using inv by (simp add: cache_invariant_def)
    have split: "length (surfaces_covering env cache page) =
        length (surfaces_covering env cache' page) + (if covers_page env surface page then 1 else 0)"
      using length_filter_remove_key [OF dist found, of "\<lambda>x. covers_page env x page"]
      by (simp add: cache' surfaces_covering_def registered_surfaces_def cov)
    have "page_count (cached_pages cache') page =
        page_count (cached_pages cache) page + (if covers_page env surface page then - 1 else 0)"
      by (simp add: cache' page_count_UpdatePagesCachedCount)
    also have "page_count (cached_pages cache) page =
        int (length (surfaces_covering env cache page))"
      using inv by (simp add: cache_invariant_def)
    finally show "page_count (cached_pages cache') page =
        int (length (surfaces_covering env cache' page))"
      using split by simp
  qed
  from d k z c show ?thesis by (simp add: cache_invariant_def)
qed

lemma cache_invariant_run_calls:
  assumes "cache_invariant env cache" and "run_calls env calls cache = Inr cache'"
  shows "cache_invariant env cache'"
  using assms
proof (induction env calls cache rule: run_calls.induct)
  case (1 env cache)
  then show ?case by simp
next
  case (2 env surface calls cache)
  then show ?case
    by (auto split: sum.splits dest: cache_invariant_RegisterSurface)
next
  case (3 env surface calls cache)
  then show ?case
    by (auto split: sum.splits dest: cache_invariant_UnregisterSurface)
qed

lemma distinct_registered_surfaces:
  assumes "cache_invariant env cache"
  shows "distinct (registered_surfaces cache)"
proof -
  from assms have d: "distinct (map fst (surface_cache cache))"
    and k: "\<forall>entry \<in> set (surface_cache cache). fst entry = params (snd entry)"
    by (simp_all add: cache_invariant_def)
  from k have "map fst (surface_cache cache) = map params (map snd (surface_cache cache))"
    by simp
  with d have "distinct (map params (map snd (surface_cache cache)))" by simp
  then have "distinct (map snd (surface_cache cache))"
    by (rule distinct_map [THEN iffD1, THEN conjunct1])
  then show ?thesis by (simp add: registered_surfaces_def)
qed

text \<open>
  C3. After any sequence of \<^verbatim>\<open>RegisterSurface\<close> and \<^verbatim>\<open>UnregisterSurface\<close> calls
  on a new cache, the count of every guest page in the Page-Coherence Map is the number
  of registered surfaces whose guest byte range covers the page (the registered
  surfaces are pairwise distinct, so the length of the list is their number); the count
  is not negative; and a page is never stored with count zero: its count is zero
  exactly when it is absent from the map.
\<close>

theorem page_coherence:
  assumes "run_calls env calls new_cache = Inr cache"
  shows "page_count (cached_pages cache) page = int (length (surfaces_covering env cache page)) \<and>
         0 \<le> page_count (cached_pages cache) page \<and>
         cached_pages cache page \<noteq> Some 0 \<and>
         (page_count (cached_pages cache) page = 0 \<longleftrightarrow> cached_pages cache page = None) \<and>
         distinct (registered_surfaces cache)"
proof -
  have inv: "cache_invariant env cache"
    using cache_invariant_new assms by (rule cache_invariant_run_calls)
  then have c: "page_count (cached_pages cache) page = int (length (surfaces_covering env cache page))"
    and z: "cached_pages cache page \<noteq> Some 0"
    by (simp_all add: cache_invariant_def)
  from z have "page_count (cached_pages cache) page = 0 \<longleftrightarrow> cached_pages cache page = None"
    by (cases "cached_pages cache page") (simp_all add: page_count_def)
  with c z distinct_registered_surfaces [OF inv] show ?thesis by simp
qed

lemma pages_S1: "pages_of_range example_collaborators 0x1000 0x2000 = [1, 2]"
  by (simp add: pages_of_range_def example_collaborators_def upt_rec)

lemma run_register_S1:
  "run_calls example_collaborators [Register S1] new_cache =
     Inr \<lparr>surface_cache = [(S1_params, S1)], cached_pages = [1 \<mapsto> 1, 2 \<mapsto> 1]\<rparr>"
  by (simp add: RegisterSurface_def new_cache_def Create_def GetSurfaceParams_def S1_def
      S1_params_def UpdatePagesCachedCount_def pages_S1 add_to_page_def page_count_def)

text \<open>
  Registering the scenario's surface and unregistering it again leaves the table empty
  and its two pages absent from the map.
\<close>

lemma run_register_unregister_S1:
  "\<exists>cache. run_calls example_collaborators [Register S1, Unregister S1] new_cache = Inr cache \<and>
     surface_cache cache = [] \<and> cached_pages cache 1 = None \<and> cached_pages cache 2 = None"
  by (simp add: RegisterSurface_def UnregisterSurface_def new_cache_def Create_def GetSurfaceParams_def S1_def
      S1_params_def UpdatePagesCachedCount_def pages_S1 add_to_page_def page_count_def)

theorem page_coherence_witness:
  "run_calls example_collaborators [Register S1] new_cache =
     Inr \<lparr>surface_cache = [(S1_params, S1)], cached_pages = [1 \<mapsto> 1, 2 \<mapsto> 1]\<rparr> \<and>
   surfaces_covering example_collaborators
     \<lparr>surface_cache = [(S1_params, S1)], cached_pages = [1 \<mapsto> 1, 2 \<mapsto> 1]\<rparr> 2 = [S1] \<and>
   page_count [1 \<mapsto> 1, 2 \<mapsto> 1] 2 = 1 \<and>
   surfaces_covering example_collaborators
     \<lparr>surface_cache = [(S1_params, S1)], cached_pages = [1 \<mapsto> 1, 2 \<mapsto> 1]\<rparr> 3 = [] \<and>
   page_count [1 \<mapsto> 1, 2 \<mapsto> 1] 3 = 0"
proof -
  let ?cache = "\<lparr>surface_cache = [(S1_params, S1)], cached_pages = [1 \<mapsto> 1, 2 \<mapsto> 1]\<rparr>"
  have two: "surfaces_covering example_collaborators ?cache 2 = [S1]"
    by (simp add: surfaces_covering_def registered_surfaces_def covers_page_def
        S1_def S1_params_def example_collaborators_def)
  have three: "surfaces_covering example_collaborators ?cache 3 = []"
    by (simp add: surfaces_covering_def registered_surfaces_def covers_page_def
        S1_def S1_params_def example_collaborators_def)
  from page_coherence [OF run_register_S1, of 2] two
  have c2: "page_count [1 \<mapsto> 1, 2 \<mapsto> 1] 2 = 1" by simp
  from page_coherence [OF run_register_S1, of 3] three
  have c3: "page_count [1 \<mapsto> 1, 2 \<mapsto> 1] 3 = 0" by simp
  from run_register_S1 two c2 three c3 show ?thesis by blast
qed

section \<open>Loading, flushing and looking up surfaces\<close>

lemma SizeInBytes_bytes_per_pixel:
  assumes "SizeInBytes p = Inr n"
  shows "\<exists>bytes_per_pixel. GetGLBytesPerPixel (pixel_format p) = Inr bytes_per_pixel"
proof -
  from assms obtain bpp where "GetFormatBpp (pixel_format p) = Inr bpp"
    by (auto simp: ASSERT_def SizeInBytes_def split: sum.splits if_splits)
  then show ?thesis by (simp add: GetGLBytesPerPixel_def)
qed

lemma zip_with_map: "zip xs (map f xs) = map (\<lambda>x. (x, f x)) xs"
  by (induction xs) simp_all

lemma write_back_unchanged:
  "fold (\<lambda>(i, byte) memory. memory(f i := byte)) (map (\<lambda>i. (i, memory0 (f i))) xs) memory0 = memory0"
proof (induction xs)
  case Nil
  show ?case by simp
next
  case (Cons x xs)
  have "fold (\<lambda>(i, byte) memory. memory(f i := byte))
          (map (\<lambda>i. (i, memory0 (f i))) (x # xs)) memory0 =
        fold (\<lambda>(i, byte) memory. memory(f i := byte))
          (map (\<lambda>i. (i, memory0 (f i))) xs) (memory0(f x := memory0 (f x)))"
    by (simp only: list.map fold_Cons comp_apply case_prod_conv)
  also have "memory0(f x := memory0 (f x)) = memory0" by (rule fun_upd_triv)
  finally show ?case using Cons.IH by (simp only:)
qed

text \<open>
  C5. For every surface whose size is defined, tiled or linear, and every content of
  guest memory, \<^verbatim>\<open>LoadGLBuffer\<close> returns, \<^verbatim>\<open>FlushGLBuffer\<close> right after it
  returns, and guest memory is then what it was before the load: at every address, so
  in particular on the bytes \<open>[CpuAddr, CpuAddr + SizeInBytes)\<close>.
\<close>

theorem load_flush_round_trip:
  assumes "SizeInBytes (params surface) = Inr n"
  shows "\<exists>st1 st2. LoadGLBuffer env surface st = Inr st1 \<and>
           FlushGLBuffer env surface st1 = Inr st2 \<and>
           guest_memory st2 = guest_memory st"
proof -
  from SizeInBytes_bytes_per_pixel [OF assms] obtain bytes_per_pixel
    where b: "GetGLBytesPerPixel (pixel_format (params surface)) = Inr bytes_per_pixel" ..
  let ?f = "guest_address env (params surface) bytes_per_pixel"
  let ?st1 = "st\<lparr>gl_buffer := (gl_buffer st)(object_id surface :=
                   map (\<lambda>i. guest_memory st (?f i)) [0..<unat n]),
                 loads_from_guest_memory := Suc (loads_from_guest_memory st)\<rparr>"
  have l: "LoadGLBuffer env surface st = Inr ?st1"
    by (simp add: LoadGLBuffer_def assms b)
  have "fold (\<lambda>(i, byte) memory. memory(?f i := byte))
          (zip [0..<unat n] (gl_buffer ?st1 (object_id surface))) (guest_memory ?st1) =
        guest_memory st"
    by (simp add: zip_with_map write_back_unchanged)
  then have "\<exists>st2. FlushGLBuffer env surface ?st1 = Inr st2 \<and> guest_memory st2 = guest_memory st"
    by (simp add: FlushGLBuffer_def assms b)
  with l show ?thesis by blast
qed

lemma SizeInBytes_S2: "SizeInBytes (params S2) = Inr 8"
  by (simp add: ASSERT_def S2_def S2_params_def SizeInBytes_def GetCompressionFactor_def GetFormatBpp_def
      compression_factor_table_def bpp_table_def CHAR_BIT_def)

lemma GetGLBytesPerPixel_S2: "GetGLBytesPerPixel (pixel_format (params S2)) = Inr 8"
  by (simp add: ASSERT_def S2_def S2_params_def GetGLBytesPerPixel_def GetFormatBpp_def bpp_table_def
      CHAR_BIT_def)

lemma upt_8: "[0..<8] = [0, 1, 2, 3, 4, 5, 6, 7 :: nat]"
  by (simp add: upt_rec)

lemma LoadGLBuffer_S2:
  assumes "LoadGLBuffer example_collaborators S2 example_emulator = Inr st1"
  shows "gl_buffer st1 (object_id S2) = [1, 0, 3, 2, 5, 4, 7, 6]"
proof -
  from assms have "st1 = example_emulator\<lparr>
      gl_buffer := (gl_buffer example_emulator)(object_id S2 :=
        map (\<lambda>i. guest_memory example_emulator
               (guest_address example_collaborators (params S2) 8 i)) [0..<8]),
      loads_from_guest_memory := Suc (loads_from_guest_memory example_emulator)\<rparr>"
    by (simp add: LoadGLBuffer_def SizeInBytes_S2 GetGLBytesPerPixel_S2)
  then show ?thesis
    by (simp add: upt_8 guest_address_def example_emulator_def example_collaborators_def
        S2_def S2_params_def)
qed

theorem load_flush_round_trip_witness:
  "SizeInBytes (params S2) = Inr 8 \<and>
   (\<exists>st1 st2. LoadGLBuffer example_collaborators S2 example_emulator = Inr st1 \<and>
      gl_buffer st1 (object_id S2) = [1, 0, 3, 2, 5, 4, 7, 6] \<and>
      FlushGLBuffer example_collaborators S2 st1 = Inr st2 \<and>
      guest_memory st2 = guest_memory example_emulator)"
proof -
  from load_flush_round_trip [OF SizeInBytes_S2, of example_collaborators example_emulator]
  obtain st1 st2 where l: "LoadGLBuffer example_collaborators S2 example_emulator = Inr st1"
    and f: "FlushGLBuffer example_collaborators S2 st1 = Inr st2"
    and m: "guest_memory st2 = guest_memory example_emulator"
    by blast
  from l have "gl_buffer st1 (object_id S2) = [1, 0, 3, 2, 5, 4, 7, 6]"
    by (rule LoadGLBuffer_S2)
  with l f m SizeInBytes_S2 show ?thesis by blast
qed

text \<open>
  C4. When \<^verbatim>\<open>GetSurface\<close> has returned a surface for a descriptor, a second call
  with an equal descriptor, with nothing in between, returns the same surface (the same
  object identity) and leaves the state as it is: no surface is constructed and nothing
  is loaded from guest memory.
\<close>

theorem GetSurface_same_instance:
  assumes "GetSurface env st descriptor = Inr (surface, st')"
  shows "GetSurface env st' descriptor = Inr (surface, st')"
proof (cases "map_of (surface_cache (rasterizer_cache st)) descriptor")
  case (Some s)
  with assms have "surface = s" "st' = st"
    by (simp_all add: GetSurface_def Create_def)
  with Some show ?thesis by (simp add: GetSurface_def Create_def)
next
  case None
  let ?s = "\<lparr>object_id = surfaces_constructed st, params = descriptor\<rparr>"
  let ?st1 = "st\<lparr>surfaces_constructed := Suc (surfaces_constructed st)\<rparr>"
  from assms None have run:
    "(case LoadGLBuffer env ?s ?st1 of
        Inl e \<Rightarrow> Inl e
      | Inr st2 \<Rightarrow>
          (case RegisterSurface env (rasterizer_cache st2) ?s of
             Inl e \<Rightarrow> Inl e
           | Inr cache \<Rightarrow> Inr (?s, st2\<lparr>rasterizer_cache := cache\<rparr>))) = Inr (surface, st')"
    by (simp add: GetSurface_def Create_def Let_def)
  then obtain st2 where l: "LoadGLBuffer env ?s ?st1 = Inr st2"
    by (cases "LoadGLBuffer env ?s ?st1") simp_all
  with run obtain cache where r: "RegisterSurface env (rasterizer_cache st2) ?s = Inr cache"
    by (cases "RegisterSurface env (rasterizer_cache st2) ?s") simp_all
  from run l r have res: "surface = ?s" "st' = st2\<lparr>rasterizer_cache := cache\<rparr>"
    by simp_all
  from r have "surface_cache cache = (descriptor, ?s) # surface_cache (rasterizer_cache st2)"
    by (auto simp: RegisterSurface_def Create_def GetSurfaceParams_def Let_def split: if_splits)
  then have "map_of (surface_cache (rasterizer_cache st')) descriptor = Some surface"
    by (simp add: res)
  then show ?thesis by (simp add: GetSurface_def Create_def)
qed

lemma GetSurface_S2:
  "\<exists>st'. GetSurface example_collaborators example_emulator S2_params = Inr (S2, st') \<and>
     surfaces_constructed st' = 1 \<and> loads_from_guest_memory st' = 1"
proof -
  have m: "map_of (surface_cache (rasterizer_cache example_emulator)) S2_params = None"
    by (simp add: example_emulator_def new_cache_def)
  have s: "SizeInBytes S2_params = Inr 8" using SizeInBytes_S2 by (simp add: S2_def)
  have g: "GetGLBytesPerPixel (pixel_format S2_params) = Inr 8"
    using GetGLBytesPerPixel_S2 by (simp add: S2_def)
  show ?thesis
    by (simp add: GetSurface_def Create_def m LoadGLBuffer_def s g RegisterSurface_def
        GetSurfaceParams_def example_emulator_def new_cache_def Let_def S2_def)
qed

theorem GetSurface_same_instance_witness:
  "\<exists>st'. GetSurface example_collaborators example_emulator S2_params = Inr (S2, st') \<and>
     GetSurface example_collaborators st' S2_params = Inr (S2, st') \<and>
     surfaces_constructed st' = 1 \<and> loads_from_guest_memory st' = 1"
proof -
  from GetSurface_S2 obtain st' where
    first: "GetSurface example_collaborators example_emulator S2_params = Inr (S2, st')"
    and counts: "surfaces_constructed st' = 1" "loads_from_guest_memory st' = 1"
    by blast
  from GetSurface_same_instance [OF first] first counts show ?thesis by blast
qed

end
